theory Spec2Isabelle
  imports Complex_Main "HOL-Library.Word"
begin

section \<open>Session spend limits: \<open>SessionValidator\<close> (packages/core, security module)\<close>

text \<open>
  The TypeScript \<open>number\<close> amounts (SOL, ETH) are modelled as exact rationals: the
  validator only compares and adds them, and decimal literals such as \<open>0.05\<close> are then
  the values the source text writes. \<open>NaN\<close>, the infinities and the rounding of IEEE
  doubles are outside the model.
\<close>

type_synonym number = rat

record SessionConfig =
  maxSpendSOL :: number
  maxSpendETH :: number
  maxPerTxSOL :: number
  maxPerTxETH :: number
  allowedMerchantsSOL :: "string list option"
  allowedMerchantsETH :: "string list option"

definition DEFAULT_SESSION_CONFIG :: SessionConfig where
  "DEFAULT_SESSION_CONFIG =
     \<lparr> maxSpendSOL = 0.1, maxSpendETH = 0.01, maxPerTxSOL = 0.05, maxPerTxETH = 0.005,
       allowedMerchantsSOL = None, allowedMerchantsETH = None \<rparr>"

text \<open>
  The class holds its configuration and the two private counters. Every \<open>throw new Error\<close>
  of the class is one constructor of \<open>error\<close>, carrying the values its message prints:
  the refused address; the amount and the per-transaction limit; the remaining session room.
\<close>

record SessionValidator =
  config :: SessionConfig
  spentSOL :: number
  spentETH :: number

datatype error =
    RecipientNotAllowed string
  | PerTransactionLimitExceeded number number
  | SessionLimitExceeded number

text \<open>
  \<open>constructor(private config: SessionConfig = DEFAULT_SESSION_CONFIG) { }\<close>: an omitted
  argument (\<open>None\<close>) takes the default; the body is empty, so no path raises.
\<close>

definition new_SessionValidator :: "SessionConfig option \<Rightarrow> error + SessionValidator" where
  "new_SessionValidator arg =
     Inr \<lparr> config = (case arg of None \<Rightarrow> DEFAULT_SESSION_CONFIG | Some c \<Rightarrow> c),
           spentSOL = 0, spentETH = 0 \<rparr>"

text \<open>
  The guard \<open>list && list.length > 0 && !list.includes(toAddress)\<close> of step 1, shared by
  both chains: true exactly when the address is refused.
\<close>

definition notInAllowList :: "string list option \<Rightarrow> string \<Rightarrow> bool" where
  "notInAllowList allowed toAddress =
     (case allowed of
        None \<Rightarrow> False
      | Some xs \<Rightarrow> 0 < length xs \<and> toAddress \<notin> set xs)"

text \<open>
  \<open>validateSOL\<close> and \<open>validateETH\<close> return \<open>void\<close> or throw. The model returns the
  validator as the method leaves it (\<open>Inr\<close>) or the error (\<open>Inl\<close>); neither method assigns
  to a field.
\<close>

definition validateSOL :: "SessionValidator \<Rightarrow> string \<Rightarrow> number \<Rightarrow> error + SessionValidator" where
  "validateSOL v toAddress amt =
     (if notInAllowList (allowedMerchantsSOL (config v)) toAddress
        then Inl (RecipientNotAllowed toAddress)
      else if amt > maxPerTxSOL (config v)
        then Inl (PerTransactionLimitExceeded amt (maxPerTxSOL (config v)))
      else if spentSOL v + amt > maxSpendSOL (config v)
        then Inl (SessionLimitExceeded (maxSpendSOL (config v) - spentSOL v))
      else Inr v)"

definition validateETH :: "SessionValidator \<Rightarrow> string \<Rightarrow> number \<Rightarrow> error + SessionValidator" where
  "validateETH v toAddress amt =
     (if notInAllowList (allowedMerchantsETH (config v)) toAddress
        then Inl (RecipientNotAllowed toAddress)
      else if amt > maxPerTxETH (config v)
        then Inl (PerTransactionLimitExceeded amt (maxPerTxETH (config v)))
      else if spentETH v + amt > maxSpendETH (config v)
        then Inl (SessionLimitExceeded (maxSpendETH (config v) - spentETH v))
      else Inr v)"

definition addSpentSOL :: "SessionValidator \<Rightarrow> number \<Rightarrow> SessionValidator" where
  "addSpentSOL v amt = v\<lparr> spentSOL := spentSOL v + amt \<rparr>"

definition addSpentETH :: "SessionValidator \<Rightarrow> number \<Rightarrow> SessionValidator" where
  "addSpentETH v amt = v\<lparr> spentETH := spentETH v + amt \<rparr>"






section \<open>Transfers and tool-call dispatch (app/utils/functions, app/components/AIAgentModal)\<close>

text \<open>
  Exceptions of the chat layer are JavaScript \<open>Error\<close> values; the code only reads their
  \<open>message\<close>.
\<close>

datatype js_error = JsError (message: string)

record Keypair =
  publicKey :: "8 word list"
  secretKey :: "8 word list"

record SolTransfer =
  fromPubkey :: "8 word list"
  toPubkey :: "8 word list"
  lamports :: number

record EthTransfer =
  eth_account :: string
  eth_to :: string
  eth_value :: int

text \<open>
  What the code asks of the chain SDKs and of the JavaScript runtime, taken as parameters:
  \<open>numberToString\<close> is \<open>Number.prototype.toString\<close> (template literals and
  \<open>amount.toString()\<close>); \<open>newPublicKey\<close> is \<open>new PublicKey(s)\<close>, which throws on a
  malformed address; \<open>sendAndConfirmTransaction\<close> builds, signs and submits a Solana
  transfer and yields its signature; \<open>privateKeyToAccount\<close> (viem) yields the account's
  address; \<open>parseEther\<close> (viem) yields wei; \<open>sendTransaction\<close> submits an Ethereum
  transfer and yields its hash; \<open>Keypair_fromSecretKey\<close> and \<open>toBase58\<close> are the
  web3.js functions of those names.
\<close>

record Env =
  numberToString :: "number \<Rightarrow> string"
  newPublicKey :: "string \<Rightarrow> js_error + 8 word list"
  sendAndConfirmTransaction :: "SolTransfer \<Rightarrow> js_error + string"
  privateKeyToAccount :: "string \<Rightarrow> js_error + string"
  parseEther :: "string \<Rightarrow> js_error + int"
  sendTransaction :: "EthTransfer \<Rightarrow> js_error + string"
  Keypair_fromSecretKey :: "8 word list \<Rightarrow> js_error + Keypair"
  toBase58 :: "8 word list \<Rightarrow> string"

text \<open>
  The observable effects of a dispatch, in order: a transfer handed to the chain for
  building and submission, and the balance refresh \<open>fetchBalances()\<close>.
\<close>

datatype effect =
    SubmitSOL SolTransfer
  | SubmitETH EthTransfer
  | FetchBalances

definition LAMPORTS_PER_SOL :: number where
  "LAMPORTS_PER_SOL = 1000000000"

definition transferSOL ::
    "Env \<Rightarrow> Keypair \<Rightarrow> string \<Rightarrow> number \<Rightarrow> (js_error + string) \<times> effect list" where
  "transferSOL env sessionKey toAddress amt =
     (case newPublicKey env toAddress of
        Inl e \<Rightarrow> (Inl e, [])
      | Inr toPk \<Rightarrow>
          (let transaction = \<lparr> fromPubkey = publicKey sessionKey, toPubkey = toPk,
                                 lamports = amt * LAMPORTS_PER_SOL \<rparr>
           in (sendAndConfirmTransaction env transaction, [SubmitSOL transaction])))"

definition transferETH ::
    "Env \<Rightarrow> string \<Rightarrow> string \<Rightarrow> number \<Rightarrow> (js_error + string) \<times> effect list" where
  "transferETH env privateKeyHex toAddress amt =
     (case privateKeyToAccount env privateKeyHex of
        Inl e \<Rightarrow> (Inl e, [])
      | Inr account \<Rightarrow>
          (case parseEther env (numberToString env amt) of
             Inl e \<Rightarrow> (Inl e, [])
           | Inr wei \<Rightarrow>
               (let request = \<lparr> eth_account = account, eth_to = toAddress, eth_value = wei \<rparr>
                in (sendTransaction env request, [SubmitETH request]))))"

datatype role = User | Agent

record Message =
  role :: role
  content :: string

record TransferArgs =
  toAddress :: string
  amount :: number

record FunctionCall =
  fc_name :: string
  fc_args :: "TransferArgs option"

record Candidate =
  functionCall :: "FunctionCall option"
  candidate_text :: "string option"

text \<open>
  The answer of the model endpoint: the \<open>fetch\<close> (or \<open>response.json()\<close>) throws, or
  the first part of the first candidate is read, which may be absent.
\<close>

datatype llm_reply = FetchFailed | Reply "Candidate option"

record ModalState =
  sessionKey :: "Keypair option"
  ethSessionKey :: "string option"
  messages :: "Message list"
  input :: string
  isProcessing :: bool

definition say :: "ModalState \<Rightarrow> string \<Rightarrow> ModalState" where
  "say st txt = st\<lparr> messages := messages st @ [\<lparr> role = Agent, content = txt \<rparr>] \<rparr>"

text \<open>
  \<open>!input.trim()\<close>: the input is empty once white space is trimmed. The white space of
  the ASCII range is modelled (tab, line feed, vertical tab, form feed, carriage return,
  space).
\<close>

definition isWhiteSpace :: "char \<Rightarrow> bool" where
  "isWhiteSpace c = (c \<in> set [CHR 0x09, CHR 0x0A, CHR 0x0B, CHR 0x0C, CHR 0x0D, CHR 0x20])"

definition blank :: "string \<Rightarrow> bool" where
  "blank s = list_all isWhiteSpace s"

definition sorryText :: string where
  "sorryText = ''Sorry, I couldn't understand that.''"

definition serviceErrorText :: string where
  "serviceErrorText = ''Error communicating with AI service.''"

text \<open>
  The body of the \<open>try\<close> block of \<open>handleSend\<close> after the reply has been read. A call
  without \<open>args\<close> makes the destructuring throw, which the outer \<open>catch\<close> reports. A
  function call whose name is neither \<open>transferSOL\<close> nor \<open>transferETH\<close> matches no
  branch.
\<close>

definition dispatch :: "Env \<Rightarrow> Candidate option \<Rightarrow> ModalState \<Rightarrow> ModalState \<times> effect list" where
  "dispatch env candidate st =
     (case (case candidate of None \<Rightarrow> None | Some c \<Rightarrow> functionCall c) of
        Some fc \<Rightarrow>
          (if fc_name fc = ''transferSOL'' then
             (case fc_args fc of
                None \<Rightarrow> (say st serviceErrorText, [])
              | Some a \<Rightarrow>
                  (let st1 = say st (''Processing SOL transfer of '' @ numberToString env (amount a)
                                      @ '' to '' @ toAddress a @ ''...'')
                   in (case sessionKey st of
                         None \<Rightarrow> (say st1 (''SOL Transfer failed: '' @ ''No SOL session key''), [])
                       | Some k \<Rightarrow>
                           (case transferSOL env k (toAddress a) (amount a) of
                              (Inl e, effs) \<Rightarrow> (say st1 (''SOL Transfer failed: '' @ message e), effs)
                            | (Inr signature, effs) \<Rightarrow>
                                (say st1 (''SOL Transfer successful! Sig: '' @ signature),
                                 effs @ [FetchBalances])))))
           else if fc_name fc = ''transferETH'' then
             (case fc_args fc of
                None \<Rightarrow> (say st serviceErrorText, [])
              | Some a \<Rightarrow>
                  (let st1 = say st (''Processing ETH transfer of '' @ numberToString env (amount a)
                                      @ '' to '' @ toAddress a @ ''...'')
                   in (case ethSessionKey st of
                         None \<Rightarrow> (say st1 (''ETH Transfer failed: '' @ ''No ETH session key''), [])
                       | Some k \<Rightarrow>
                           (case transferETH env k (toAddress a) (amount a) of
                              (Inl e, effs) \<Rightarrow> (say st1 (''ETH Transfer failed: '' @ message e), effs)
                            | (Inr hash, effs) \<Rightarrow>
                                (say st1 (''ETH Transfer successful! Hash: '' @ hash),
                                 effs @ [FetchBalances])))))
           else (st, []))
      | None \<Rightarrow>
          (let aiText = (case (case candidate of None \<Rightarrow> None | Some c \<Rightarrow> candidate_text c) of
                           None \<Rightarrow> sorryText
                         | Some t \<Rightarrow> if t = [] then sorryText else t)
           in (say st aiText, [])))"

definition handleSend :: "Env \<Rightarrow> llm_reply \<Rightarrow> ModalState \<Rightarrow> ModalState \<times> effect list" where
  "handleSend env reply st =
     (if blank (input st) then (st, [])
      else
        (let userMsg = \<lparr> role = User, content = input st \<rparr>;
             st1 = st\<lparr> messages := messages st @ [userMsg], input := [], isProcessing := True \<rparr>;
             (st2, effs) = (case reply of
                              FetchFailed \<Rightarrow> (say st1 serviceErrorText, [])
                            | Reply candidate \<Rightarrow> dispatch env candidate st1)
         in (st2\<lparr> isProcessing := False \<rparr>, effs)))"

section \<open>Tool execution in the React hook \<open>useAgent\<close> (packages/ai)\<close>

datatype client_role = ClientUser | Assistant | System

record ClientMessage =
  client_role :: client_role
  client_content :: string

text \<open>
  A tool call is a name with arguments; arguments and results are carried as their JSON
  text, so a handler yields the text \<open>JSON.stringify\<close> prints for its result, or throws.
  \<open>options.handlers\<close> is a dictionary from tool names to handlers.
\<close>

record ToolCall =
  tool_name :: string
  tool_args :: string

type_synonym handlers = "string \<rightharpoonup> (string \<Rightarrow> js_error + string)"

definition assistant :: "string \<Rightarrow> ClientMessage" where
  "assistant txt = \<lparr> client_role = Assistant, client_content = txt \<rparr>"

definition executingText :: "string \<Rightarrow> string" where
  "executingText n = ''Executing '' @ n @ ''...''"

text \<open>One round of the \<open>for (const toolCall of response.toolCalls)\<close> loop.\<close>

definition executeToolCall :: "handlers \<Rightarrow> ClientMessage list \<Rightarrow> ToolCall \<Rightarrow> ClientMessage list" where
  "executeToolCall hs prev toolCall =
     (case hs (tool_name toolCall) of
        None \<Rightarrow> prev @ [assistant (''Error: No handler for tool '' @ tool_name toolCall)]
      | Some handler \<Rightarrow>
          (let shown = prev @ [assistant (executingText (tool_name toolCall))];
               kept = filter (\<lambda>m. client_content m \<noteq> executingText (tool_name toolCall)) shown
           in (case handler (tool_args toolCall) of
                 Inr result \<Rightarrow>
                   kept @ [assistant (''Tool Result ('' @ tool_name toolCall @ ''): '' @ result)]
               | Inl toolErr \<Rightarrow>
                   kept @ [assistant (''Tool Error: '' @ message toolErr)])))"

definition executeToolCalls :: "handlers \<Rightarrow> ClientMessage list \<Rightarrow> ToolCall list \<Rightarrow> ClientMessage list" where
  "executeToolCalls hs prev toolCalls = foldl (executeToolCall hs) prev toolCalls"

section \<open>Session keys (packages/core, session helpers)\<close>

text \<open>
  \<open>number[]\<close> is a list of integers: \<open>Array.from\<close> of a \<open>Uint8Array\<close> reads every byte
  as its value, and \<open>Uint8Array.from\<close> stores every number modulo 256.
\<close>

record SessionKeys =
  solKeypair :: Keypair
  solAddress :: string
  solSecret :: "int list"
  ethKey :: string
  ethAddress :: string

definition Array_from :: "8 word list \<Rightarrow> int list" where
  "Array_from bytes = map uint bytes"

definition Uint8Array_from :: "int list \<Rightarrow> 8 word list" where
  "Uint8Array_from numbers = map word_of_int numbers"

text \<open>
  \<open>generateSessionKeys\<close> draws a Solana keypair (\<open>Keypair.generate()\<close>) and an Ethereum
  private key (\<open>generatePrivateKey()\<close>); the two draws are its arguments here.
\<close>

definition generateSessionKeys :: "Env \<Rightarrow> Keypair \<Rightarrow> string \<Rightarrow> js_error + SessionKeys" where
  "generateSessionKeys env generated_keypair generated_private_key =
     (case privateKeyToAccount env generated_private_key of
        Inl e \<Rightarrow> Inl e
      | Inr ethAccountAddress \<Rightarrow>
          Inr \<lparr> solKeypair = generated_keypair,
                solAddress = toBase58 env (publicKey generated_keypair),
                solSecret = Array_from (secretKey generated_keypair),
                ethKey = generated_private_key,
                ethAddress = ethAccountAddress \<rparr>)"

definition restoreSolanaKeypair :: "Env \<Rightarrow> int list \<Rightarrow> js_error + Keypair" where
  "restoreSolanaKeypair env secret = Keypair_fromSecretKey env (Uint8Array_from secret)"

definition getEthAddress :: "Env \<Rightarrow> string \<Rightarrow> js_error + string" where
  "getEthAddress env privateKey = privateKeyToAccount env privateKey"

section \<open>A chain double and sample sessions\<close>

text \<open>
  \<open>stubEnv\<close> stands in for the SDKs where the code is run on concrete data: it
  refuses the empty address and the empty key, accepts every other request, prints every
  number as \<open>n\<close>, and keeps a keypair's public key in the second half of its secret key.
\<close>

definition stubEnv :: Env where
  "stubEnv =
     \<lparr> numberToString = (\<lambda>x. ''n''),
       newPublicKey = (\<lambda>s. if s = [] then Inl (JsError ''Invalid public key input'')
                            else Inr (map (\<lambda>c. of_nat (of_char c)) s)),
       sendAndConfirmTransaction = (\<lambda>t. Inr ''signature''),
       privateKeyToAccount = (\<lambda>k. if k = [] then Inl (JsError ''invalid private key'')
                                   else Inr (''0x'' @ k)),
       parseEther = (\<lambda>s. Inr 1),
       sendTransaction = (\<lambda>t. Inr ''hash''),
       Keypair_fromSecretKey = (\<lambda>bytes. if length bytes = 4
                                         then Inr \<lparr> publicKey = drop 2 bytes, secretKey = bytes \<rparr>
                                         else Inl (JsError ''bad secret key size'')),
       toBase58 = (\<lambda>bytes. map (\<lambda>b. char_of (unat b)) bytes) \<rparr>"

definition stubKeypair :: Keypair where
  "stubKeypair = \<lparr> publicKey = [3, 4], secretKey = [1, 2, 3, 4] \<rparr>"

definition freshValidator :: SessionValidator where
  "freshValidator = \<lparr> config = DEFAULT_SESSION_CONFIG, spentSOL = 0, spentETH = 0 \<rparr>"

definition listedValidator :: SessionValidator where
  "listedValidator =
     \<lparr> config = DEFAULT_SESSION_CONFIG\<lparr> allowedMerchantsSOL := Some [''addrA''],
                                            allowedMerchantsETH := Some [''addrA''] \<rparr>,
       spentSOL = 0.05, spentETH = 0.005 \<rparr>"

definition toolCall :: "string \<Rightarrow> TransferArgs option \<Rightarrow> llm_reply" where
  "toolCall n a = Reply (Some \<lparr> functionCall = Some \<lparr> fc_name = n, fc_args = a \<rparr>,
                               candidate_text = None \<rparr>)"

definition openSession :: "string \<Rightarrow> ModalState" where
  "openSession typed =
     \<lparr> sessionKey = Some stubKeypair, ethSessionKey = Some ''k'', messages = [],
       input = typed, isProcessing = False \<rparr>"

section \<open>Properties of the validator\<close>

lemma validateSOL_keeps_state: "validateSOL v r a = Inr v' \<Longrightarrow> v' = v"
  by (simp add: validateSOL_def split: if_splits)

lemma validateETH_keeps_state: "validateETH v r a = Inr v' \<Longrightarrow> v' = v"
  by (simp add: validateETH_def split: if_splits)









text \<open>
  C3, as stated: an approving authorization itself adds the amount to the chain's
  counter. It fails on the code: \<open>validateSOL\<close> approves 0.01 SOL on a fresh validator and
  returns with the counter still at zero.
\<close>

theorem approval_reserves_counterexample:
  "validateSOL freshValidator ''merchant'' 0.01 = Inr freshValidator
   \<and> spentSOL freshValidator = 0
   \<and> spentSOL freshValidator \<noteq> spentSOL freshValidator + 0.01"
  by (simp add: freshValidator_def validateSOL_def notInAllowList_def DEFAULT_SESSION_CONFIG_def)

text \<open>
  C3, amended: \<open>validateSOL\<close> and \<open>validateETH\<close> only check; when they approve, the
  validator (both counters and the configuration) is exactly as before. The increment is a
  separate call: \<open>addSpentSOL\<close> (\<open>addSpentETH\<close>) leaves the chain's counter equal to its
  prior value plus the amount and touches nothing else.
\<close>

theorem approval_checks_only:
  "(validateSOL v r a = Inr v' \<longrightarrow> v' = v)
   \<and> (validateETH v r a = Inr v' \<longrightarrow> v' = v)
   \<and> addSpentSOL v a = v\<lparr> spentSOL := spentSOL v + a \<rparr>
   \<and> addSpentETH v a = v\<lparr> spentETH := spentETH v + a \<rparr>"
  by (auto simp: addSpentSOL_def addSpentETH_def
      dest: validateSOL_keeps_state validateETH_keeps_state)

theorem approval_checks_only_witness:
  "validateSOL freshValidator ''merchant'' 0.01 = Inr freshValidator
   \<and> validateETH freshValidator ''0xmerchant'' 0.001 = Inr freshValidator
   \<and> spentSOL (addSpentSOL freshValidator 0.01) = 0.01
   \<and> spentETH (addSpentETH freshValidator 0.001) = 0.001"
proof -
  have s: "validateSOL freshValidator ''merchant'' 0.01 = Inr freshValidator"
    by (simp add: freshValidator_def validateSOL_def notInAllowList_def DEFAULT_SESSION_CONFIG_def)
  have e: "validateETH freshValidator ''0xmerchant'' 0.001 = Inr freshValidator"
    by (simp add: freshValidator_def validateETH_def notInAllowList_def DEFAULT_SESSION_CONFIG_def)
  from approval_checks_only[of freshValidator "''merchant''" "0.01" freshValidator]
  have "spentSOL (addSpentSOL freshValidator 0.01) = spentSOL freshValidator + 0.01"
    by simp
  moreover
  from approval_checks_only[of freshValidator "''merchant''" "0.001" freshValidator]
  have "spentETH (addSpentETH freshValidator 0.001) = spentETH freshValidator + 0.001"
    by simp
  ultimately show ?thesis using s e
    by (simp add: freshValidator_def)
qed

text \<open>
  C4, as stated: constructing a validator from a configuration with
  \<open>maxPerTxSOL > maxSpendSOL\<close> fails. It does not on the code: the constructor accepts a
  per-transaction limit of 1 SOL over a session ceiling of 0.1 SOL.
\<close>

theorem bad_config_accepted_counterexample:
  "maxPerTxSOL (DEFAULT_SESSION_CONFIG\<lparr> maxPerTxSOL := 1 \<rparr>)
     > maxSpendSOL (DEFAULT_SESSION_CONFIG\<lparr> maxPerTxSOL := 1 \<rparr>)
   \<and> new_SessionValidator (Some (DEFAULT_SESSION_CONFIG\<lparr> maxPerTxSOL := 1 \<rparr>))
     = Inr \<lparr> config = DEFAULT_SESSION_CONFIG\<lparr> maxPerTxSOL := 1 \<rparr>,
             spentSOL = 0, spentETH = 0 \<rparr>"
  by (simp add: new_SessionValidator_def DEFAULT_SESSION_CONFIG_def)

text \<open>
  C4, amended: the constructor checks nothing. For every configuration, also one with
  \<open>maxPerTx > maxSpend\<close>, construction succeeds and yields a validator that holds the
  configuration unchanged (nothing is clamped), with both counters at zero; without an
  argument it holds \<open>DEFAULT_SESSION_CONFIG\<close>.
\<close>

theorem construction_never_fails:
  "new_SessionValidator (Some cfg) = Inr \<lparr> config = cfg, spentSOL = 0, spentETH = 0 \<rparr>
   \<and> new_SessionValidator None
       = Inr \<lparr> config = DEFAULT_SESSION_CONFIG, spentSOL = 0, spentETH = 0 \<rparr>"
  by (simp add: new_SessionValidator_def)



text \<open>
  C6: with a non-empty allow-list configured for a chain, every request whose recipient
  is not a member of the list is rejected with the recipient error, whatever the amount.
  With no list, or an empty one, the recipient plays no part: the request is approved
  exactly when the amount is within the per-transaction limit and the session ceiling.
\<close>

theorem allow_list_gate:
  "(allowedMerchantsSOL (config v) = Some xs \<and> xs \<noteq> [] \<and> r \<notin> set xs
      \<longrightarrow> validateSOL v r a = Inl (RecipientNotAllowed r))
   \<and> (allowedMerchantsETH (config v) = Some xs \<and> xs \<noteq> [] \<and> r \<notin> set xs
      \<longrightarrow> validateETH v r a = Inl (RecipientNotAllowed r))
   \<and> (allowedMerchantsSOL (config v) = None \<or> allowedMerchantsSOL (config v) = Some []
      \<longrightarrow> (validateSOL v r a = Inr v
             \<longleftrightarrow> a \<le> maxPerTxSOL (config v) \<and> spentSOL v + a \<le> maxSpendSOL (config v))
          \<and> validateSOL v r a \<noteq> Inl (RecipientNotAllowed r'))
   \<and> (allowedMerchantsETH (config v) = None \<or> allowedMerchantsETH (config v) = Some []
      \<longrightarrow> (validateETH v r a = Inr v
             \<longleftrightarrow> a \<le> maxPerTxETH (config v) \<and> spentETH v + a \<le> maxSpendETH (config v))
          \<and> validateETH v r a \<noteq> Inl (RecipientNotAllowed r'))"
  by (auto simp: validateSOL_def validateETH_def notInAllowList_def)

theorem allow_list_gate_witness:
  "validateSOL (listedValidator\<lparr> spentSOL := 0 \<rparr>) ''addrB'' 0.01 = Inl (RecipientNotAllowed ''addrB'')
   \<and> validateETH (listedValidator\<lparr> spentETH := 0 \<rparr>) ''addrB'' 0.001 = Inl (RecipientNotAllowed ''addrB'')
   \<and> validateSOL freshValidator ''addrB'' 0.01 = Inr freshValidator
   \<and> validateETH freshValidator ''addrB'' 0.001 = Inr freshValidator"
proof -
  have "validateSOL (listedValidator\<lparr> spentSOL := 0 \<rparr>) ''addrB'' 0.01
          = Inl (RecipientNotAllowed ''addrB'')"
    using allow_list_gate[of "listedValidator\<lparr> spentSOL := 0 \<rparr>" "[''addrA'']" "''addrB''"]
    by (simp add: listedValidator_def)
  moreover have "validateETH (listedValidator\<lparr> spentETH := 0 \<rparr>) ''addrB'' 0.001
          = Inl (RecipientNotAllowed ''addrB'')"
    using allow_list_gate[of "listedValidator\<lparr> spentETH := 0 \<rparr>" "[''addrA'']" "''addrB''"]
    by (simp add: listedValidator_def)
  moreover have "validateSOL freshValidator ''addrB'' 0.01 = Inr freshValidator"
    using allow_list_gate[of freshValidator "[]" "''addrB''" "0.01"]
    by (simp add: freshValidator_def DEFAULT_SESSION_CONFIG_def)
  moreover have "validateETH freshValidator ''addrB'' 0.001 = Inr freshValidator"
    using allow_list_gate[of freshValidator "[]" "''addrB''" "0.001"]
    by (simp add: freshValidator_def DEFAULT_SESSION_CONFIG_def)
  ultimately show ?thesis by blast
qed

section \<open>Properties of the dispatch\<close>

lemma handleSend_dispatch:
  "\<not> blank (input st) \<Longrightarrow>
   handleSend env (Reply c) st =
     (let (st2, effs) = dispatch env c
            (st\<lparr> messages := messages st @ [\<lparr> role = User, content = input st \<rparr>],
                 input := [], isProcessing := True \<rparr>)
      in (st2\<lparr> isProcessing := False \<rparr>, effs))"
  by (simp add: handleSend_def Let_def)






section \<open>Properties of the session keys\<close>

lemma Uint8Array_from_Array_from: "Uint8Array_from (Array_from bytes) = bytes"
  by (induction bytes) (simp_all add: Uint8Array_from_def Array_from_def)

text \<open>
  C8: restoration inverts generation. For session keys produced by
  \<open>generateSessionKeys\<close>, restoring the Solana keypair from the persisted number array
  hands the SDK the very bytes of the generated secret key, so, the SDK rebuilding from
  those bytes a keypair with the generated public key, the restored keypair's base58
  address is the generated \<open>solAddress\<close>; and \<open>getEthAddress\<close> of the persisted private
  key is the generated \<open>ethAddress\<close>.
\<close>

theorem session_keys_round_trip:
  assumes "generateSessionKeys env kp ek = Inr keys"
    and "Keypair_fromSecretKey env (secretKey kp) = Inr kp'"
    and "publicKey kp' = publicKey kp"
  shows "restoreSolanaKeypair env (solSecret keys) = Inr kp'
       \<and> toBase58 env (publicKey kp') = solAddress keys
       \<and> getEthAddress env (ethKey keys) = Inr (ethAddress keys)"
proof (cases "privateKeyToAccount env ek")
  case (Inl e)
  with assms(1) show ?thesis
    by (simp add: generateSessionKeys_def)
next
  case (Inr addr)
  with assms(1) have keys: "keys = \<lparr> solKeypair = kp, solAddress = toBase58 env (publicKey kp),
      solSecret = Array_from (secretKey kp), ethKey = ek, ethAddress = addr \<rparr>"
    by (simp add: generateSessionKeys_def)
  show ?thesis
    using assms(2,3) Inr
    by (simp add: keys restoreSolanaKeypair_def getEthAddress_def Uint8Array_from_Array_from)
qed

theorem session_keys_round_trip_witness:
  "restoreSolanaKeypair stubEnv [1, 2, 3, 4] = Inr stubKeypair
   \<and> toBase58 stubEnv (publicKey stubKeypair) = [CHR 0x03, CHR 0x04]
   \<and> getEthAddress stubEnv ''k'' = Inr ''0xk''"
proof -
  have gen: "generateSessionKeys stubEnv stubKeypair ''k''
      = Inr \<lparr> solKeypair = stubKeypair, solAddress = [CHR 0x03, CHR 0x04],
              solSecret = [1, 2, 3, 4], ethKey = ''k'', ethAddress = ''0xk'' \<rparr>"
    by code_simp
  have lib: "Keypair_fromSecretKey stubEnv (secretKey stubKeypair) = Inr stubKeypair"
    by (simp add: stubEnv_def stubKeypair_def)
  from session_keys_round_trip[OF gen lib refl] show ?thesis
    by simp
qed

section \<open>Unknown tool names\<close>

lemma handleSend_unknown_tool:
  "\<not> blank (input st) \<Longrightarrow> n \<noteq> ''transferSOL'' \<Longrightarrow> n \<noteq> ''transferETH'' \<Longrightarrow>
   handleSend env (toolCall n args) st =
     (st\<lparr> messages := messages st @ [\<lparr> role = User, content = input st \<rparr>],
          input := [], isProcessing := False \<rparr>, [])"
  by (simp add: toolCall_def handleSend_dispatch dispatch_def)

text \<open>
  C9, at the failing input: the model answers with a call of \<open>swapTokens\<close>, a tool of the
  core vocabulary for which \<open>handleSend\<close> has no branch. The chat gains the user's own
  message and nothing else, and nothing is submitted: the call is dropped without a
  visible result.
\<close>

theorem unknown_tool_dropped_silently:
  "handleSend stubEnv (toolCall ''swapTokens'' None) (openSession ''swap 1 SOL for USDC'')
     = (\<lparr> sessionKey = Some stubKeypair, ethSessionKey = Some ''k'',
          messages = [\<lparr> role = User, content = ''swap 1 SOL for USDC'' \<rparr>],
          input = [], isProcessing = False \<rparr>, [])"
  by (simp add: toolCall_def handleSend_def blank_def isWhiteSpace_def openSession_def
      dispatch_def Let_def)

section \<open>Further properties\<close>

text \<open>
  The per-transaction limit binds whatever room the session has left: a permitted
  recipient asking for more than the limit is refused with the per-transaction error,
  on both chains.
\<close>

theorem per_transaction_limit_binds:
  "(\<not> notInAllowList (allowedMerchantsSOL (config v)) r \<and> maxPerTxSOL (config v) < a
      \<longrightarrow> validateSOL v r a = Inl (PerTransactionLimitExceeded a (maxPerTxSOL (config v))))
   \<and> (\<not> notInAllowList (allowedMerchantsETH (config v)) r \<and> maxPerTxETH (config v) < a
      \<longrightarrow> validateETH v r a = Inl (PerTransactionLimitExceeded a (maxPerTxETH (config v))))"
  by (simp add: validateSOL_def validateETH_def)

theorem per_transaction_limit_binds_witness:
  "validateSOL freshValidator ''merchant'' 0.06 = Inl (PerTransactionLimitExceeded 0.06 0.05)
   \<and> validateETH freshValidator ''0xmerchant'' 0.006 = Inl (PerTransactionLimitExceeded 0.006 0.005)"
proof -
  have "validateSOL freshValidator ''merchant'' 0.06 = Inl (PerTransactionLimitExceeded 0.06 0.05)"
    using per_transaction_limit_binds[of freshValidator "''merchant''" "0.06"]
    by (simp add: freshValidator_def notInAllowList_def DEFAULT_SESSION_CONFIG_def)
  moreover
  have "validateETH freshValidator ''0xmerchant'' 0.006 = Inl (PerTransactionLimitExceeded 0.006 0.005)"
    using per_transaction_limit_binds[of freshValidator "''0xmerchant''" "0.006"]
    by (simp add: freshValidator_def notInAllowList_def DEFAULT_SESSION_CONFIG_def)
  ultimately show ?thesis by blast
qed

text \<open>
  The session scenario with the default limits (ceiling 0.10 SOL, 0.05 SOL per
  transaction), each approval recorded before the next request: 0.05 is approved, 0.05 is
  approved again, and 0.01 is then refused by the session limit with nothing remaining.
\<close>

theorem default_session_scenario:
  "validateSOL freshValidator ''merchant'' 0.05 = Inr freshValidator
   \<and> validateSOL (addSpentSOL freshValidator 0.05) ''merchant'' 0.05
       = Inr (addSpentSOL freshValidator 0.05)
   \<and> validateSOL (addSpentSOL (addSpentSOL freshValidator 0.05) 0.05) ''merchant'' 0.01
       = Inl (SessionLimitExceeded 0)"
  by (simp add: freshValidator_def validateSOL_def addSpentSOL_def notInAllowList_def
      DEFAULT_SESSION_CONFIG_def)

text \<open>
  In the hook, a tool call whose name has no handler appends exactly one assistant
  message, the no-handler error naming the tool, and leaves the earlier messages as they
  were.
\<close>

theorem hook_reports_missing_handler:
  "hs (tool_name tc) = None \<longrightarrow>
     executeToolCall hs prev tc
       = prev @ [\<lparr> client_role = Assistant,
                    client_content = ''Error: No handler for tool '' @ tool_name tc \<rparr>]"
  by (simp add: executeToolCall_def assistant_def)

theorem hook_reports_missing_handler_witness:
  "executeToolCall Map.empty [] \<lparr> tool_name = ''swapTokens'', tool_args = ''{}'' \<rparr>
     = [\<lparr> client_role = Assistant, client_content = ''Error: No handler for tool swapTokens'' \<rparr>]"
  using hook_reports_missing_handler[of Map.empty "\<lparr> tool_name = ''swapTokens'', tool_args = ''{}'' \<rparr>" "[]"]
  by simp

end
